theory Spec2Isabelle
  imports Main "HOL-Library.Sublist"
begin

section \<open>Python strings\<close>

text \<open>
  A Python \<open>str\<close> is modelled as a \<open>string\<close> whose characters stand for the code points
  below 256 (Latin-1). The functions below agree with CPython on that range.
\<close>

definition lower_char :: "char \<Rightarrow> char" where
  "lower_char c =
     (let n = (of_char c :: nat)
      in if (65 \<le> n \<and> n \<le> 90) \<or> (192 \<le> n \<and> n \<le> 222 \<and> n \<noteq> 215)
         then char_of (n + 32) else c)"

text \<open>\<open>str.lower()\<close>\<close>

definition lower :: "string \<Rightarrow> string" where
  "lower s = map lower_char s"

text \<open>\<open>str.replace(old, new)\<close> for one-character \<open>old\<close> and \<open>new\<close>.\<close>

definition replace :: "char \<Rightarrow> char \<Rightarrow> string \<Rightarrow> string" where
  "replace old new s = map (\<lambda>c. if c = old then new else c) s"

text \<open>\<open>str.isspace()\<close> on one character; it is also what \<open>\s\<close> matches in \<open>re\<close>.\<close>

definition isspace :: "char \<Rightarrow> bool" where
  "isspace c =
     (let n = (of_char c :: nat)
      in (9 \<le> n \<and> n \<le> 13) \<or> (28 \<le> n \<and> n \<le> 32) \<or> n = 133 \<or> n = 160)"

text \<open>\<open>str.strip()\<close> with no argument.\<close>

definition strip :: "string \<Rightarrow> string" where
  "strip s = rev (dropWhile isspace (rev (dropWhile isspace s)))"

text \<open>\<open>re.sub(r"\s+", " ", s)\<close>: every maximal run of whitespace becomes one space.\<close>

function sub_spaces :: "string \<Rightarrow> string" where
  "sub_spaces [] = []"
| "sub_spaces (c # s) =
     (if isspace c then CHR '' '' # sub_spaces (dropWhile isspace s)
      else c # sub_spaces s)"
  by pat_completeness auto
termination
  by (relation "measure length") (auto simp: length_dropWhile_le less_Suc_eq_le)

text \<open>\<open>a.startswith(b)\<close> and the substring test \<open>v in s\<close>.\<close>

fun startswith :: "string \<Rightarrow> string \<Rightarrow> bool" where
  "startswith s [] = True"
| "startswith [] (c # v) = False"
| "startswith (d # s) (c # v) = (d = c \<and> startswith s v)"

fun str_in :: "string \<Rightarrow> string \<Rightarrow> bool" where
  "str_in v [] = (v = [])"
| "str_in v (c # s) = (startswith (c # s) v \<or> str_in v s)"

section \<open>Exceptions\<close>

datatype error =
    IndexError
  | ValueError string
  | TypeError
  | AttributeError string
  | UnboundLocalError string
  | TimeoutException string
  | NoSuchElementException
  | WebDriverException string

text \<open>\<open>xs[i]\<close> on a Python list.\<close>

definition index :: "'a list \<Rightarrow> nat \<Rightarrow> error + 'a" where
  "index xs i = (if i < length xs then Inr (xs ! i) else Inl IndexError)"

text \<open>\<open>by, value = xs\<close>\<close>

fun unpack2 :: "string list \<Rightarrow> error + (string \<times> string)" where
  "unpack2 [b, v] = Inr (b, v)"
| "unpack2 [] = Inl (ValueError ''not enough values to unpack (expected 2, got 0)'')"
| "unpack2 [b] = Inl (ValueError ''not enough values to unpack (expected 2, got 1)'')"
| "unpack2 (a # b # c # xs) = Inl (ValueError ''too many values to unpack (expected 2)'')"

section \<open>The browser\<close>

text \<open>
  The web driver is outside the repository. A \<open>WebElement\<close> handle is modelled by what it
  reports when queried: its \<open>repr\<close>, its \<open>text\<close> (\<open>text_of\<close>), its attributes (\<open>get_attribute\<close> gives
  \<open>None\<close> for a missing one), \<open>is_displayed()\<close> and \<open>is_enabled()\<close> (which may raise), whether
  \<open>click()\<close> raises, the elements \<open>find_element(by, value)\<close> finds beneath it, and its child
  nodes, which the script of \<open>get_text\<close> reads.
\<close>

datatype node =
    TextNode string
  | ElementNode (tag: string) (node_attributes: "(string \<times> string) list") (child_nodes: "node list")

datatype element = Element
  (repr: string)
  (text_of: string)
  (attributes: "(string \<times> string) list")
  (is_displayed: "error + bool")
  (is_enabled: "error + bool")
  (click_raises: "error option")
  (children: "((string \<times> string) \<times> element) list")
  (content: "node list")

text \<open>
  A page is one state of the document as the driver sees it: what \<open>driver.find_elements\<close>
  returns (or raises) for a locator, and how each of the three waits used by the
  components ends for a locator (\<open>None\<close> and \<open>False\<close> are a \<open>TimeoutException\<close>).
\<close>

record page =
  find_elements :: "string \<times> string \<Rightarrow> error + element list"
  until_presence :: "string \<times> string \<Rightarrow> element option"
  until_visibility :: "string \<times> string \<Rightarrow> element option"
  until_invisibility :: "string \<times> string \<Rightarrow> bool"

definition blank_page :: page where
  "blank_page =
     \<lparr>find_elements = (\<lambda>_. Inr []), until_presence = (\<lambda>_. None),
      until_visibility = (\<lambda>_. None), until_invisibility = (\<lambda>_. True)\<rparr>"

text \<open>
  What the component did to the browser, in order. \<open>Sleep\<close> counts milliseconds.
\<close>

datatype event =
    Click string
  | Sleep nat
  | Clear string
  | SendKeys string string
  | ExecuteScript string

section \<open>Locator\<close>

definition CSS_SELECTOR :: string where
  "CSS_SELECTOR = ''css selector''"

type_synonym locators = "string \<rightharpoonup> string \<times> string"

text \<open>
  A dict literal \<open>{name: [by, value], ...}\<close> handed to the registry, in the order written;
  \<open>by\<close> may be \<open>None\<close>.
\<close>

type_synonym locator_dict = "(string \<times> string option \<times> string) list"

definition by_or_default :: "string option \<Rightarrow> string" where
  "by_or_default b = (case b of None \<Rightarrow> CSS_SELECTOR | Some s \<Rightarrow> s)"

text \<open>\<open>Locator.update_locaters\<close>; \<open>Locator.__init__\<close> is the same on the empty registry.\<close>

definition update_locaters :: "locators \<Rightarrow> locator_dict \<Rightarrow> locators" where
  "update_locaters m new_locators =
     fold (\<lambda>(key, b, v) m'. m'(key \<mapsto> (by_or_default b, v))) new_locators m"

definition Locator_init :: "locator_dict \<Rightarrow> locators" where
  "Locator_init existing_locators = update_locaters Map.empty existing_locators"

text \<open>
  \<open>Locator.get_locator\<close>: \<open>self.locators.get(name, [])\<close>, then the log line formats
  \<open>locator[0]\<close> and \<open>locator[1]\<close>, then the list is returned.
\<close>

definition dict_get :: "locators \<Rightarrow> string \<Rightarrow> string list" where
  "dict_get m name = (case m name of None \<Rightarrow> [] | Some (b, v) \<Rightarrow> [b, v])"

definition get_locator :: "locators \<Rightarrow> string \<Rightarrow> error + string list" where
  "get_locator m name =
     (let locator = dict_get m name
      in case index locator 0 of
           Inl e \<Rightarrow> Inl e
         | Inr b \<Rightarrow>
             (case index locator 1 of
                Inl e \<Rightarrow> Inl e
              | Inr v \<Rightarrow> Inr locator))"

section \<open>AlertComponentAction\<close>

text \<open>
  The component owns a locator registry and drives one browser session. The session is
  the list of pages the browser shows from now on: the head is the current page, and
  every click that goes through brings up the next one. When the list is used up nothing
  is rendered any more (\<open>blank_page\<close>). \<open>events\<close> records what was done to the browser.
\<close>

record AlertComponentAction =
  locators :: locators
  script :: "page list"
  events :: "event list"

definition current :: "page list \<Rightarrow> page" where
  "current ps = (case ps of [] \<Rightarrow> blank_page | p # _ \<Rightarrow> p)"

text \<open>\<open>time.sleep(seconds)\<close>, \<open>element.click()\<close>, \<open>element.find_element(by, value)\<close>,
  \<open>element.get_attribute(name)\<close>.\<close>

definition sleep :: "nat \<Rightarrow> 'a AlertComponentAction_scheme \<Rightarrow> 'a AlertComponentAction_scheme" where
  "sleep ms s = s\<lparr>events := events s @ [Sleep ms]\<rparr>"

definition click ::
  "element \<Rightarrow> 'a AlertComponentAction_scheme \<Rightarrow> (error + unit) \<times> 'a AlertComponentAction_scheme" where
  "click el s =
     (case click_raises el of
        Some e \<Rightarrow> (Inl e, s)
      | None \<Rightarrow> (Inr (), s\<lparr>script := tl (script s), events := events s @ [Click (repr el)]\<rparr>))"

definition find_element :: "element \<Rightarrow> string \<times> string \<Rightarrow> error + element" where
  "find_element el loc =
     (case map_of (children el) loc of
        None \<Rightarrow> Inl NoSuchElementException
      | Some c \<Rightarrow> Inr c)"

definition get_attribute :: "element \<Rightarrow> string \<Rightarrow> string option" where
  "get_attribute el a = map_of (attributes el) a"

text \<open>\<open>f(*xs)\<close> for a function of the two arguments \<open>by\<close> and \<open>value\<close>.\<close>

fun star2 :: "string list \<Rightarrow> error + (string \<times> string)" where
  "star2 [b, v] = Inr (b, v)"
| "star2 xs = Inl TypeError"

text \<open>\<open>get_element(by, value)\<close>\<close>

definition get_element ::
  "string \<Rightarrow> string \<Rightarrow> 'a AlertComponentAction_scheme \<Rightarrow> error + element" where
  "get_element b v s =
     (case until_presence (current (script s)) (b, v) of
        None \<Rightarrow> Inl (TimeoutException (''Element with by='' @ b @ '' and value='' @ v @ '' not found.''))
      | Some el \<Rightarrow> Inr el)"

text \<open>\<open>_find_element(element, locator)\<close>\<close>

definition p_find_element ::
  "element \<Rightarrow> string \<Rightarrow> 'a AlertComponentAction_scheme \<Rightarrow> error + element" where
  "p_find_element el locator s =
     (case get_locator (locators s) locator of
        Inl e \<Rightarrow> Inl e
      | Inr l \<Rightarrow> (case star2 l of Inl e \<Rightarrow> Inl e | Inr loc \<Rightarrow> find_element el loc))"

text \<open>\<open>_find_elements(by, value)\<close>: an exception of the driver gives the empty list.\<close>

definition p_find_elements ::
  "string \<Rightarrow> string \<Rightarrow> 'a AlertComponentAction_scheme \<Rightarrow> element list" where
  "p_find_elements b v s =
     (case find_elements (current (script s)) (b, v) of
        Inl e \<Rightarrow> []
      | Inr els \<Rightarrow> els)"

text \<open>The call \<open>self._find_elements(*self.locator.get_locator(name))\<close>.\<close>

definition find_elements_of ::
  "string \<Rightarrow> 'a AlertComponentAction_scheme \<Rightarrow> error + element list" where
  "find_elements_of locator s =
     (case get_locator (locators s) locator of
        Inl e \<Rightarrow> Inl e
      | Inr l \<Rightarrow> (case star2 l of Inl e \<Rightarrow> Inl e | Inr (b, v) \<Rightarrow> Inr (p_find_elements b v s)))"

text \<open>
  \<open>enter_text(locator, text)\<close>. When \<open>get_locator\<close> raises, \<open>by\<close> and \<open>value\<close> are not
  bound yet, and the handler's log line, which formats them, raises in its turn.
\<close>

definition enter_text ::
  "string \<Rightarrow> string \<Rightarrow> 'a AlertComponentAction_scheme \<Rightarrow> (error + unit) \<times> 'a AlertComponentAction_scheme" where
  "enter_text locator txt s =
     (case get_locator (locators s) locator of
        Inl e \<Rightarrow> (Inl (UnboundLocalError ''by''), s)
      | Inr l \<Rightarrow>
          (case unpack2 l of
             Inl e \<Rightarrow> (Inl (UnboundLocalError ''by''), s)
           | Inr (b, v) \<Rightarrow>
               (case get_element b v s of
                  Inl e \<Rightarrow> (Inl e, s)
                | Inr el \<Rightarrow>
                    (let s1 = (if v \<noteq> ''password''
                               then s\<lparr>events := events s @ [Clear (repr el)]\<rparr> else s)
                     in (Inr (), s1\<lparr>events := events s1 @ [SendKeys (repr el) txt]\<rparr>)))))"

text \<open>\<open>wait_for_element(locator)\<close> and \<open>wait_for_element_invisible(locator)\<close>; how long the
  wait lasts is the page's business.\<close>

definition wait_for_element ::
  "string \<Rightarrow> 'a AlertComponentAction_scheme \<Rightarrow> error + element" where
  "wait_for_element locator s =
     (case get_locator (locators s) locator of
        Inl e \<Rightarrow> Inl e
      | Inr l \<Rightarrow>
          (case unpack2 l of
             Inl e \<Rightarrow> Inl e
           | Inr (b, v) \<Rightarrow>
               (case until_visibility (current (script s)) (b, v) of
                  None \<Rightarrow> Inl (TimeoutException
                    (''Element with locator='' @ locator @ '', by='' @ b @ '' and value='' @ v
                      @ '' is not visible''))
                | Some el \<Rightarrow> Inr el)))"

definition wait_for_element_invisible ::
  "string \<Rightarrow> 'a AlertComponentAction_scheme \<Rightarrow> error + bool" where
  "wait_for_element_invisible locator s =
     (case get_locator (locators s) locator of
        Inl e \<Rightarrow> Inl e
      | Inr l \<Rightarrow>
          (case unpack2 l of
             Inl e \<Rightarrow> Inl e
           | Inr (b, v) \<Rightarrow>
               (if until_invisibility (current (script s)) (b, v) then Inr True
                else Inl (TimeoutException
                    (''Element with locator='' @ locator @ '', by='' @ b @ '' and value='' @ v
                      @ '' did not become invisible.'')))))"

text \<open>
  The script of \<open>get_text\<close>: every descendant \<open>span[data-test="screen-reader-content"]\<close>
  of the element is removed, then \<open>textContent.trim()\<close> is returned.
\<close>

fun is_screen_reader_span :: "node \<Rightarrow> bool" where
  "is_screen_reader_span (TextNode t) = False"
| "is_screen_reader_span (ElementNode tg as cs) =
     (tg = ''span'' \<and> map_of as ''data-test'' = Some ''screen-reader-content'')"

fun remove_spans :: "node \<Rightarrow> node" where
  "remove_spans (TextNode t) = TextNode t"
| "remove_spans (ElementNode tg as cs) =
     ElementNode tg as (map remove_spans (filter (\<lambda>c. \<not> is_screen_reader_span c) cs))"

fun textContent :: "node \<Rightarrow> string" where
  "textContent (TextNode t) = t"
| "textContent (ElementNode tg as cs) = concat (map textContent cs)"

text \<open>\<open>String.prototype.trim\<close>: white space and line terminators.\<close>

definition js_space :: "char \<Rightarrow> bool" where
  "js_space c = (let n = (of_char c :: nat) in (9 \<le> n \<and> n \<le> 13) \<or> n = 32 \<or> n = 160)"

definition trim :: "string \<Rightarrow> string" where
  "trim s = rev (dropWhile js_space (rev (dropWhile js_space s)))"

definition execute_script :: "element \<Rightarrow> string" where
  "execute_script label =
     trim (concat (map (\<lambda>c. textContent (remove_spans c))
                       (filter (\<lambda>c. \<not> is_screen_reader_span c) (content label))))"

text \<open>\<open>get_text(locator)\<close>\<close>

definition get_text ::
  "string \<Rightarrow> 'a AlertComponentAction_scheme \<Rightarrow> (error + string) \<times> 'a AlertComponentAction_scheme" where
  "get_text locator s =
     (case get_locator (locators s) locator of
        Inl e \<Rightarrow> (Inl e, s)
      | Inr l \<Rightarrow>
          (case star2 l of
             Inl e \<Rightarrow> (Inl e, s)
           | Inr (b, v) \<Rightarrow>
               (case get_element b v s of
                  Inl e \<Rightarrow> (Inl e, s)
                | Inr text_element \<Rightarrow>
                    (let element_text = execute_script text_element;
                         s' = s\<lparr>events := events s @ [ExecuteScript (repr text_element)]\<rparr>
                     in (Inr (if lower element_text \<noteq> '''' then element_text
                              else ''element text not found of locator='' @ locator), s')))))"

text \<open>\<open>get_element_text(element)\<close>: \<open>re.sub\<close> raises on \<open>None\<close>.\<close>

definition get_element_text :: "element \<Rightarrow> error + string" where
  "get_element_text el =
     (case get_attribute el ''innerText'' of
        None \<Rightarrow> Inl TypeError
      | Some inner_text \<Rightarrow> Inr (strip (sub_spaces inner_text)))"

section \<open>AlertTable\<close>

record AlertTable = AlertComponentAction +
  name :: string
  "value" :: string

definition ROWS :: string where
  "ROWS = '' tr.list-item.savedsearches-gridrow''"

definition COLS :: "string \<Rightarrow> string" where
  "COLS column = '' td.cell-'' @ column"

definition SWITCH_PAGE :: string where
  "SWITCH_PAGE = '' .pull-right li a''"

text \<open>The locators of \<open>AlertBaseComponent.__init__\<close> and of \<open>AlertTable.__init__\<close>.\<close>

definition base_locator :: locator_dict where
  "base_locator =
     [(''label_component'', None, '' .control-label''),
      (''help'', None, '' .help-block'')]"

definition new_locator :: "string \<Rightarrow> locator_dict" where
  "new_locator v =
     [(''input_number'', None, v @ '' .shared-collectioncount''),
      (''status_column'', None, '' [data-test=\"status\"]''),
      (''clear_filter'', None, '' [data-test=\"clear\"]''),
      (''search_box'', None, '' [data-name=\"nameFilter\"] input.search-query''),
      (''loader'', None, v @ '' [data-test=\"wait-spinner\"]''),
      (''popup'', None, ''div.deletePrompt''),
      (''clone_btn'', None, ''a.clone''),
      (''edit_btn'', None, ''.edit-alert''),
      (''delete_btn'', None, ''a.delete''),
      (''status_button'', None, '' [data-test=\"button\"][role=\"switch\"]''),
      (''switch_to_page'', None, v @ SWITCH_PAGE),
      (''main_table'', None, ''table[data-test=\"main-table\"]''),
      (''table_head'', None, '' [data-test=\"head\"]''),
      (''table_headers'', None, v @ '' th''),
      (''table_container'', None, v @ '' [data-test=\"table\"]''),
      (''expand'', None, ''[data-test=\"expand\"]''),
      (''rows'', None, v @ ROWS)]"

text \<open>
  \<open>AlertTable.__init__(driver, container)\<close>. \<open>container\<close> is a dict, so its keys are
  distinct; \<open>list(container)[0]\<close> raises on the empty dict.
\<close>

definition AlertTable_init :: "page list \<Rightarrow> locator_dict \<Rightarrow> error + AlertTable" where
  "AlertTable_init driver container =
     (case container of
        [] \<Rightarrow> Inl IndexError
      | (nm, b, v) # _ \<Rightarrow>
          Inr \<lparr>locators =
                 update_locaters (update_locaters (Locator_init container) base_locator)
                   (new_locator v),
               script = driver, events = [], name = nm, value = v\<rparr>)"

text \<open>\<open>_is_element_clickable(element)\<close>\<close>

definition p_is_element_clickable :: "element \<Rightarrow> bool" where
  "p_is_element_clickable el =
     (case is_displayed el of
        Inl e \<Rightarrow> False
      | Inr d \<Rightarrow>
          (if d then (case is_enabled el of Inl e \<Rightarrow> False | Inr en \<Rightarrow> en) else False))"

text \<open>
  \<open>next_page()\<close>. The loop over the pagination controls gives \<open>None\<close> when it runs to its
  end, which is where the \<open>else\<close> of the \<open>for\<close> raises.
\<close>

fun next_page_for :: "element list \<Rightarrow> AlertTable \<Rightarrow> (error + bool) option \<times> AlertTable" where
  "next_page_for [] s = (None, s)"
| "next_page_for (page # elements) s =
     (case get_element_text page of
        Inl e \<Rightarrow> (Some (Inl e), s)
      | Inr t \<Rightarrow>
          (if lower t = ''next'' then
             (if p_is_element_clickable page then
                (case click page s of
                   (Inl e, s') \<Rightarrow> (Some (Inr False), s')
                 | (Inr u, s') \<Rightarrow> (Some (Inr True), s'))
              else (Some (Inr False), s))
           else next_page_for elements s))"

definition next_page :: "AlertTable \<Rightarrow> (error + bool) \<times> AlertTable" where
  "next_page s =
     (case wait_for_element ''table_container'' s of
        Inl e \<Rightarrow> (Inl e, s)
      | Inr w \<Rightarrow>
          (let s1 = sleep 10000 s
           in case get_locator (locators s1) ''switch_to_page'' of
                Inl e \<Rightarrow> (Inl e, s1)
              | Inr l \<Rightarrow>
                  (case star2 l of
                     Inl e \<Rightarrow> (Inl e, s1)
                   | Inr loc \<Rightarrow>
                       (case find_elements (current (script s1)) loc of
                          Inl e \<Rightarrow> (Inl e, s1)
                        | Inr elements \<Rightarrow>
                            (if elements \<noteq> [] then
                               (case next_page_for elements s1 of
                                  (None, s2) \<Rightarrow>
                                    (Inl (ValueError (''page: '' @ repr (last elements)
                                            @ '' is not found.'')), s2)
                                | (Some r, s2) \<Rightarrow> (r, s2))
                             else (Inr False, s1))))))"

text \<open>
  \<open>_column_value(row, column)\<close>. \<open>column_selector\<close> is the locator it hands to
  \<open>row.find_element\<close>: the registered \<open>status_column\<close>, or \<open>temp_col\<close> as just registered.
\<close>

definition normalize :: "string \<Rightarrow> string" where
  "normalize column = replace (CHR '' '') (CHR ''_'') (lower column)"

definition register_temp_col :: "string \<Rightarrow> AlertTable \<Rightarrow> AlertTable" where
  "register_temp_col column s =
     s\<lparr>locators := update_locaters (locators s) [(''temp_col'', None, value s @ COLS column)]\<rparr>"

definition p_column_value ::
  "element \<Rightarrow> string \<Rightarrow> AlertTable \<Rightarrow> (error + string) \<times> AlertTable" where
  "p_column_value row column s =
     (case wait_for_element ''table_container'' s of
        Inl e \<Rightarrow> (Inl e, s)
      | Inr w \<Rightarrow>
          (let column = normalize column
           in if column = ''status'' then
                (case p_find_element row ''status_column'' s of
                   Inl e \<Rightarrow> (Inl e, s)
                 | Inr el \<Rightarrow> (Inr (strip (text_of el)), s))
              else
                (let s' = register_temp_col column s
                 in case p_find_element row ''temp_col'' s' of
                      Inl e \<Rightarrow> (Inl e, s')
                    | Inr el \<Rightarrow>
                        (case get_element_text el of
                           Inl e \<Rightarrow> (Inl e, s')
                         | Inr t \<Rightarrow> (Inr t, s')))))"

definition column_selector :: "AlertTable \<Rightarrow> string \<Rightarrow> error + string list" where
  "column_selector s column =
     (let column = normalize column
      in if column = ''status'' then get_locator (locators s) ''status_column''
         else get_locator (locators (register_temp_col column s)) ''temp_col'')"

text \<open>\<open>sort_table(column, order)\<close>; again \<open>None\<close> is the loop running to its end.\<close>

fun sort_table_for ::
  "element list \<Rightarrow> string \<Rightarrow> string \<Rightarrow> AlertTable \<Rightarrow> (error + bool) option \<times> AlertTable" where
  "sort_table_for [] column order s = (None, s)"
| "sort_table_for (th # ths) column order s =
     (if text_of th \<noteq> '''' \<and> lower (text_of th) = lower column then
        (let current_sort_order = get_attribute th ''data-test-sort-dir''
         in if (order = ''asc'' \<and> current_sort_order = Some ''asc'')
               \<or> (order = ''desc'' \<and> current_sort_order = Some ''desc'')
            then (Some (Inr True), s)
            else if (order = ''asc'' \<and> current_sort_order = Some ''desc'')
               \<or> (order = ''desc'' \<and> current_sort_order = Some ''asc'')
            then (case click th s of
                    (Inl e, s1) \<Rightarrow> (Some (Inl e), s1)
                  | (Inr u, s1) \<Rightarrow> (Some (Inr True), sleep 100 s1))
            else (case click th (sleep 2000 s) of
                    (Inl e, s1) \<Rightarrow> (Some (Inl e), s1)
                  | (Inr u, s1) \<Rightarrow>
                      (let s2 = sleep 2000 s1
                       in if order = ''desc'' then
                            (case click th s2 of
                               (Inl e, s3) \<Rightarrow> (Some (Inl e), s3)
                             | (Inr u, s3) \<Rightarrow> (Some (Inr True), s3))
                          else sort_table_for ths column order s2)))
      else sort_table_for ths column order s)"

definition sort_table :: "string \<Rightarrow> string \<Rightarrow> AlertTable \<Rightarrow> (error + bool) \<times> AlertTable" where
  "sort_table column order s =
     (case wait_for_element ''table_head'' s of
        Inl e \<Rightarrow> (Inl e, s)
      | Inr w \<Rightarrow>
          (case find_elements_of ''table_headers'' s of
             Inl e \<Rightarrow> (Inl e, s)
           | Inr ths \<Rightarrow>
               (case sort_table_for ths column order s of
                  (None, s') \<Rightarrow> (Inl (ValueError (''Failed to sort the '' @ column)), s')
                | (Some r, s') \<Rightarrow> (r, s'))))"

subsection \<open>Walking the pages\<close>

text \<open>
  A turn of the page uses up one page of the session, which is why the walks below end.
\<close>

lemma next_page_for_script:
  "next_page_for els s = (Some (Inr True), s') \<Longrightarrow> script s' = tl (script s)"
  by (induction els) (auto simp: click_def split: sum.splits option.splits if_splits)

lemma wait_for_element_nonempty:
  "wait_for_element l s = Inr w \<Longrightarrow> script s \<noteq> []"
  by (auto simp: wait_for_element_def current_def blank_page_def
           split: sum.splits option.splits prod.splits)

lemma next_page_shorter:
  "next_page s = (Inr True, s') \<Longrightarrow> length (script s') < length (script s)"
  by (auto simp: next_page_def Let_def sleep_def
           split: sum.splits if_splits option.splits prod.splits
           dest!: next_page_for_script wait_for_element_nonempty)

text \<open>\<open>get_list_of_rows(rows=None)\<close>\<close>

function get_list_of_rows ::
  "element list option \<Rightarrow> AlertTable \<Rightarrow> (error + element list) \<times> AlertTable" where
  "get_list_of_rows rows s =
     (case wait_for_element ''table_container'' s of
        Inl e \<Rightarrow> (Inl e, s)
      | Inr w \<Rightarrow>
          (let rows = (case rows of None \<Rightarrow> [] | Some r \<Rightarrow> r)
           in case find_elements_of ''rows'' s of
                Inl e \<Rightarrow> (Inl e, s)
              | Inr current_rows \<Rightarrow>
                  (let rows = rows @ current_rows
                   in case next_page s of
                        (Inl e, s') \<Rightarrow> (Inl e, s')
                      | (Inr turned, s') \<Rightarrow>
                          (if turned then get_list_of_rows (Some rows) s'
                           else (Inr rows, s')))))"
  by pat_completeness auto
termination
  by (relation "measure (\<lambda>(rows, s). length (script s))")
     (auto dest!: next_page_shorter [OF sym])

text \<open>\<open>get_rows_count()\<close>\<close>

definition get_rows_count :: "AlertTable \<Rightarrow> (error + nat) \<times> AlertTable" where
  "get_rows_count s =
     (case get_list_of_rows None s of
        (Inl e, s') \<Rightarrow> (Inl e, s')
      | (Inr rows, s') \<Rightarrow> (Inr (length rows), s'))"

text \<open>
  \<open>get_total_rows_elements()\<close> is a generator. Its state is either \<open>Start\<close>, about to run
  the body from the top (a fresh generator, or the one it delegates to after a turn of
  the page), or \<open>Yielding elements\<close>, inside \<open>yield from elements\<close> with these rows left.
  \<open>gen_next\<close> is \<open>next()\<close> on it: the next row and the generator's new state, or \<open>None\<close>
  when the generator is exhausted.
\<close>

datatype generator = Start | Yielding "element list"

function gen_next ::
  "generator \<Rightarrow> AlertTable \<Rightarrow> (error + (element \<times> generator) option) \<times> AlertTable" where
  "gen_next Start s =
     (case wait_for_element ''table_container'' s of
        Inl e \<Rightarrow> (Inl e, s)
      | Inr w \<Rightarrow>
          (case find_elements_of ''rows'' s of
             Inl e \<Rightarrow> (Inl e, s)
           | Inr elements \<Rightarrow> gen_next (Yielding elements) s))"
| "gen_next (Yielding (row # elements)) s = (Inr (Some (row, Yielding elements)), s)"
| "gen_next (Yielding []) s =
     (case next_page s of
        (Inl e, s') \<Rightarrow> (Inl e, s')
      | (Inr turned, s') \<Rightarrow>
          (if turned then gen_next Start s' else (Inr None, s')))"
  by pat_completeness auto
termination
  by (relation "measure (\<lambda>(g, s). 2 * length (script s)
                                  + (case g of Start \<Rightarrow> 1 | Yielding _ \<Rightarrow> 0))")
     (auto dest!: next_page_shorter [OF sym])

fun stage :: "generator \<Rightarrow> nat" where
  "stage Start = 1"
| "stage (Yielding els) = 0"

fun pending :: "generator \<Rightarrow> nat" where
  "pending Start = 0"
| "pending (Yielding els) = length els"

definition before :: "generator \<times> AlertTable \<Rightarrow> generator \<times> AlertTable \<Rightarrow> bool" where
  "before a b =
     (case (a, b) of ((g', s'), (g, s)) \<Rightarrow>
        length (script s') < length (script s)
        \<or> (length (script s') = length (script s)
            \<and> (stage g' < stage g \<or> (stage g' = stage g \<and> pending g' < pending g))))"

lemma gen_next_before:
  "gen_next g s = (Inr (Some (row, g')), s') \<Longrightarrow> before (g', s') (g, s)"
proof (induction g s arbitrary: row g' s' rule: gen_next.induct)
  case (1 s)
  from "1.prems" obtain w els where
    w: "wait_for_element ''table_container'' s = Inr w" and
    f: "find_elements_of ''rows'' s = Inr els" and
    n: "gen_next (Yielding els) s = (Inr (Some (row, g')), s')"
    by (auto split: sum.splits)
  from "1.IH" [OF w f n] show ?case
    by (auto simp: before_def)
next
  case (2 row elements s)
  then show ?case by (auto simp: before_def)
next
  case (3 s)
  from "3.prems" obtain s1 where
    p: "next_page s = (Inr True, s1)" and
    n: "gen_next Start s1 = (Inr (Some (row, g')), s')"
    by (auto split: sum.splits prod.splits if_splits)
  from "3.IH" [OF p [symmetric] refl _ n] next_page_shorter [OF p] show ?case
    by (auto simp: before_def)
qed

lemma p_column_value_script:
  "p_column_value row column s = (r, s') \<Longrightarrow> script s' = script s"
  by (auto simp: p_column_value_def Let_def register_temp_col_def split: sum.splits if_splits)

text \<open>\<open>list(generator)\<close>: the rows are added to the ones collected so far.\<close>

function collect ::
  "element list \<Rightarrow> generator \<Rightarrow> AlertTable \<Rightarrow> (error + element list) \<times> AlertTable" where
  "collect rows g s =
     (case gen_next g s of
        (Inl e, s') \<Rightarrow> (Inl e, s')
      | (Inr None, s') \<Rightarrow> (Inr rows, s')
      | (Inr (Some (row, g')), s') \<Rightarrow> collect (rows @ [row]) g' s')"
  by pat_completeness auto
termination
  by (relation "inv_image (less_than <*lex*> less_than <*lex*> less_than)
        (\<lambda>(rows, g, s). (length (script s), stage g, pending g))")
     (auto dest!: gen_next_before [OF sym] simp: before_def)

text \<open>
  \<open>get_row(value, column="name", is_search=False)\<close>: the \<open>for\<close> loop over the generator,
  whose \<open>else\<close> raises when the generator is exhausted.
\<close>

function get_row_for ::
  "string \<Rightarrow> string \<Rightarrow> bool \<Rightarrow> generator \<Rightarrow> AlertTable \<Rightarrow> (error + element) \<times> AlertTable" where
  "get_row_for val column is_search g s =
     (case gen_next g s of
        (Inl e, s') \<Rightarrow> (Inl e, s')
      | (Inr None, s') \<Rightarrow> (Inl (ValueError (val @ '' row not found in table'')), s')
      | (Inr (Some (row, g')), s') \<Rightarrow>
          (case p_column_value row column s' of
             (Inl e, s'') \<Rightarrow> (Inl e, s'')
           | (Inr column_text, s'') \<Rightarrow>
               (if is_search then
                  (if str_in val column_text then (Inr row, s'')
                   else get_row_for val column is_search g' s'')
                else if column_text = val then (Inr row, s'')
                else get_row_for val column is_search g' s'')))"
  by pat_completeness auto
termination
  by (relation "inv_image (less_than <*lex*> less_than <*lex*> less_than)
        (\<lambda>(val, column, is_search, g, s). (length (script s), stage g, pending g))")
     (auto dest!: gen_next_before [OF sym] p_column_value_script [OF sym] simp: before_def)

definition get_row ::
  "string \<Rightarrow> string \<Rightarrow> bool \<Rightarrow> AlertTable \<Rightarrow> (error + element) \<times> AlertTable" where
  "get_row val column is_search s =
     (case wait_for_element ''table_container'' s of
        Inl e \<Rightarrow> (Inl e, s)
      | Inr w \<Rightarrow> get_row_for val column is_search Start s)"

text \<open>
  \<open>delete_row(input_name, action=None)\<close>. After the popup has come up the method reaches
  for \<open>self.delete_btn\<close>, \<open>self.close\<close> or \<open>self.cancel\<close>. \<open>AlertTable\<close> and the classes
  it inherits from, \<open>AlertBaseComponent\<close> and \<open>AlertComponentAction\<close>, have no attribute
  of these names (they belong to the container classes), so each of them raises
  \<open>AttributeError\<close>. \<open>delete_row_try\<close> is the body of the \<open>try\<close>.
\<close>

definition popup_action :: "string option \<Rightarrow> AlertTable \<Rightarrow> (error + unit) \<times> AlertTable" where
  "popup_action action s =
     (if action = Some ''delete'' then (Inl (AttributeError ''delete_btn''), s)
      else if action = Some ''close'' then (Inl (AttributeError ''close''), s)
      else if action = Some ''cancel'' then (Inl (AttributeError ''cancel''), s)
      else (Inl (AttributeError ''cancel''), sleep 2000 s))"

definition delete_row_try ::
  "string \<Rightarrow> string option \<Rightarrow> AlertTable \<Rightarrow> (error + bool) \<times> AlertTable" where
  "delete_row_try input_name action s =
     (case wait_for_element ''table_container'' s of
        Inl e \<Rightarrow> (Inl e, s)
      | Inr w \<Rightarrow>
          (case get_row input_name ''name'' False s of
             (Inl e, s1) \<Rightarrow> (Inl e, s1)
           | (Inr del_row, s1) \<Rightarrow>
               (case p_find_element del_row ''delete_btn'' s1 of
                  Inl e \<Rightarrow> (Inl e, s1)
                | Inr del_btn \<Rightarrow>
                    (case click del_btn s1 of
                       (Inl e, s2) \<Rightarrow> (Inl e, s2)
                     | (Inr u, s2) \<Rightarrow>
                         (case wait_for_element ''popup'' s2 of
                            Inl e \<Rightarrow> (Inl e, s2)
                          | Inr p \<Rightarrow>
                              (case popup_action action s2 of
                                 (Inl e, s3) \<Rightarrow> (Inl e, s3)
                               | (Inr u', s3) \<Rightarrow>
                                   (case wait_for_element_invisible ''popup'' s3 of
                                      Inl e \<Rightarrow> (Inl e, s3)
                                    | Inr b \<Rightarrow> (Inr True, s3))))))))"

definition delete_row :: "string \<Rightarrow> string option \<Rightarrow> AlertTable \<Rightarrow> bool \<times> AlertTable" where
  "delete_row input_name action s =
     (case delete_row_try input_name action s of
        (Inl e, s') \<Rightarrow> (False, s')
      | (Inr b, s') \<Rightarrow> (b, s'))"

section \<open>Evaluation and first facts\<close>

declare get_list_of_rows.simps [simp del] collect.simps [simp del] get_row_for.simps [simp del]

lemmas str_eval = lower_def lower_char_def char_of_def bit_Suc_0_iff replace_def
  strip_def isspace_def trim_def js_space_def normalize_def

lemma get_locator_unknown: "m nm = None \<Longrightarrow> get_locator m nm = Inl IndexError"
  by (simp add: get_locator_def dict_get_def index_def)

lemma get_locator_known: "m nm = Some (b, v) \<Longrightarrow> get_locator m nm = Inr [b, v]"
  by (simp add: get_locator_def dict_get_def index_def)

lemma lower_empty: "lower t = [] \<longleftrightarrow> t = []"
  by (simp add: lower_def)

text \<open>The test \<open>v in s\<close> is the case-sensitive substring test.\<close>

lemma startswith_iff: "startswith s v \<longleftrightarrow> (\<exists>q. s = v @ q)"
  by (induction s v rule: startswith.induct) auto

lemma str_in_iff: "str_in v s \<longleftrightarrow> (\<exists>p q. s = p @ v @ q)"
proof (induction s)
  case Nil
  then show ?case by simp
next
  case (Cons c s)
  show ?case
  proof
    assume "str_in v (c # s)"
    then consider "startswith (c # s) v" | "str_in v s" by auto
    then show "\<exists>p q. c # s = p @ v @ q"
    proof cases
      case 1
      then obtain q where "c # s = v @ q" by (auto simp: startswith_iff)
      then have "c # s = [] @ v @ q" by simp
      then show ?thesis by blast
    next
      case 2
      then obtain p q where "s = p @ v @ q" using Cons.IH by blast
      then have "c # s = (c # p) @ v @ q" by simp
      then show ?thesis by blast
    qed
  next
    assume "\<exists>p q. c # s = p @ v @ q"
    then obtain p q where pq: "c # s = p @ v @ q" by blast
    show "str_in v (c # s)"
    proof (cases p)
      case Nil
      then have "startswith (c # s) v" using pq by (auto simp: startswith_iff)
      then show ?thesis by simp
    next
      case (Cons d p')
      then have "s = p' @ v @ q" using pq by simp
      then have "str_in v s" using Cons.IH by blast
      then show ?thesis by simp
    qed
  qed
qed

section \<open>Example sessions\<close>

text \<open>A table built by \<open>AlertTable({"alerts": [None, ".tbl"]})\<close> on a given session.\<close>

definition example_table :: "page list \<Rightarrow> AlertTable" where
  "example_table driver =
     \<lparr>locators =
        update_locaters (update_locaters (Locator_init [(''alerts'', None, ''.tbl'')]) base_locator)
          (new_locator ''.tbl''),
      script = driver, events = [], name = ''alerts'', value = ''.tbl''\<rparr>"

text \<open>Elements: a link or cell with its inner text, a header cell, a table row with a
  name cell and a delete control.\<close>

definition link :: "string \<Rightarrow> string \<Rightarrow> bool \<Rightarrow> element" where
  "link r t en = Element r t [(''innerText'', t)] (Inr True) (Inr en) None [] []"

definition header :: "string \<Rightarrow> string \<Rightarrow> (string \<times> string) list \<Rightarrow> element" where
  "header r t as = Element r t as (Inr True) (Inr True) None [] []"

definition table_row :: "string \<Rightarrow> string \<Rightarrow> element" where
  "table_row r nm =
     Element r nm [] (Inr True) (Inr True) None
       [((CSS_SELECTOR, ''.tbl td.cell-name''), link (r @ ''/name'') nm True),
        ((CSS_SELECTOR, ''a.delete''), link (r @ ''/delete'') ''Delete'' True)] []"

text \<open>A page showing the table \<open>.tbl\<close> with these rows, pagination controls and header
  cells.\<close>

definition table_page :: "element list \<Rightarrow> element list \<Rightarrow> element list \<Rightarrow> page" where
  "table_page rows controls headers =
     \<lparr>find_elements =
        (\<lambda>l. if l = (CSS_SELECTOR, ''.tbl tr.list-item.savedsearches-gridrow'') then Inr rows
             else if l = (CSS_SELECTOR, ''.tbl .pull-right li a'') then Inr controls
             else if l = (CSS_SELECTOR, ''.tbl th'') then Inr headers
             else Inr []),
      until_presence = (\<lambda>l. None),
      until_visibility =
        (\<lambda>l. if l = (CSS_SELECTOR, ''.tbl [data-test=\"table\"]'') then Some (header ''<table>'' [] [])
             else if l = (CSS_SELECTOR, '' [data-test=\"head\"]'') then Some (header ''<thead>'' [] [])
             else None),
      until_invisibility = (\<lambda>l. True)\<rparr>"

definition first_controls :: "element list" where
  "first_controls =
     [link ''<a prev>'' ''Prev'' False, link ''<a 1>'' ''1'' True, link ''<a 2>'' ''2'' True,
      link ''<a next>'' '' Next '' True]"

definition last_controls :: "element list" where
  "last_controls =
     [link ''<a prev>'' ''Prev'' True, link ''<a 1>'' ''1'' True, link ''<a 2>'' ''2'' True,
      link ''<a next>'' ''Next'' False]"

definition first_page :: page where
  "first_page =
     table_page [table_row ''<tr 1>'' ''cpu'', table_row ''<tr 2>'' ''disk''] first_controls []"

definition last_page :: page where
  "last_page = table_page [table_row ''<tr 3>'' ''memory''] last_controls []"

text \<open>A table whose pagination bar has no control labelled next.\<close>

definition numbered_page :: page where
  "numbered_page =
     table_page [] [link ''<a prev>'' ''Prev'' False, link ''<a 1>'' ''1'' True] []"

text \<open>A table whose \<open>Name\<close> column is not sorted yet.\<close>

definition unsorted_table :: AlertTable where
  "unsorted_table =
     example_table
       [table_page [] [] [header ''<th name>'' ''Name'' [], header ''<th owner>'' ''Owner'' []]]"

text \<open>
  A table with the one row \<open>cpu\<close>; a click on its delete control brings up the page with
  the confirmation popup, which stays.
\<close>

definition popup_page :: page where
  "popup_page =
     \<lparr>find_elements = (\<lambda>l. Inr []),
      until_presence = (\<lambda>l. None),
      until_visibility =
        (\<lambda>l. if l = (CSS_SELECTOR, ''div.deletePrompt'') then Some (header ''<div popup>'' [] [])
             else None),
      until_invisibility = (\<lambda>l. False)\<rparr>"

definition delete_table :: AlertTable where
  "delete_table = example_table [table_page [table_row ''<tr 1>'' ''cpu''] [] [], popup_page]"

text \<open>A login form, and a form with two labels that carry screen-reader text.\<close>

definition input_box :: "string \<Rightarrow> element" where
  "input_box r = Element r [] [] (Inr True) (Inr True) None [] []"

definition login_page :: page where
  "login_page =
     blank_page\<lparr>until_presence :=
       (\<lambda>l. if l = (''id'', ''username'') then Some (input_box ''<username>'')
            else if l = (''id'', ''password'') then Some (input_box ''<password>'')
            else None)\<rparr>"

definition login_form :: AlertComponentAction where
  "login_form =
     \<lparr>locators = Locator_init [(''username'', Some ''id'', ''username''),
                               (''password'', Some ''id'', ''password'')],
      script = [login_page], events = []\<rparr>"

text \<open>A form whose password box is located by \<open>input[type=password]\<close>.\<close>

definition password_input :: element where
  "password_input =
     Element ''<input password>'' [] [(''type'', ''password'')] (Inr True) (Inr True) None [] []"

definition password_page :: page where
  "password_page =
     blank_page\<lparr>until_presence :=
       (\<lambda>l. if l = (''css selector'', ''input[type=password]'') then Some password_input
            else None)\<rparr>"

definition password_form :: AlertComponentAction where
  "password_form =
     \<lparr>locators = Locator_init [(''password_box'', None, ''input[type=password]'')],
      script = [password_page], events = []\<rparr>"

definition screen_reader_span :: "string \<Rightarrow> node" where
  "screen_reader_span t =
     ElementNode ''span'' [(''data-test'', ''screen-reader-content'')] [TextNode t]"

definition label_page :: page where
  "label_page =
     blank_page\<lparr>until_presence :=
       (\<lambda>l. if l = (''css selector'', ''.name label'') then
              Some (Element ''<label name>'' ''Name'' [] (Inr True) (Inr True) None []
                      [TextNode ''  Name '',
                       ElementNode ''b'' [] [TextNode ''*'', screen_reader_span ''required''],
                       TextNode '' ''])
            else if l = (''css selector'', ''.icon label'') then
              Some (Element ''<label icon>'' [] [] (Inr True) (Inr True) None []
                      [TextNode '' '', screen_reader_span ''Open menu''])
            else None)\<rparr>"

definition label_form :: AlertComponentAction where
  "label_form =
     \<lparr>locators = Locator_init [(''name_label'', None, ''.name label''),
                               (''icon_label'', None, ''.icon label'')],
      script = [label_page], events = []\<rparr>"

lemma example_table_init:
  "AlertTable_init driver [(''alerts'', None, ''.tbl'')] = Inr (example_table driver)"
  by (simp add: AlertTable_init_def example_table_def)

lemma example_locators:
  "locators (example_table d) ''table_container'' = Some (CSS_SELECTOR, ''.tbl [data-test=\"table\"]'')"
  "locators (example_table d) ''switch_to_page'' = Some (CSS_SELECTOR, ''.tbl .pull-right li a'')"
  "locators (example_table d) ''rows'' = Some (CSS_SELECTOR, ''.tbl tr.list-item.savedsearches-gridrow'')"
  "locators (example_table d) ''table_head'' = Some (CSS_SELECTOR, '' [data-test=\"head\"]'')"
  "locators (example_table d) ''table_headers'' = Some (CSS_SELECTOR, ''.tbl th'')"
  "locators (example_table d) ''status_column'' = Some (CSS_SELECTOR, '' [data-test=\"status\"]'')"
  "locators (example_table d) ''delete_btn'' = Some (CSS_SELECTOR, ''a.delete'')"
  "locators (example_table d) ''popup'' = Some (CSS_SELECTOR, ''div.deletePrompt'')"
  by (simp_all add: example_table_def update_locaters_def new_locator_def by_or_default_def
        SWITCH_PAGE_def ROWS_def)

lemma example_fields:
  "script (example_table d) = d" "events (example_table d) = []"
  "value (example_table d) = ''.tbl''"
  by (simp_all add: example_table_def)

lemma example_wait:
  "wait_for_element ''table_container'' (example_table (table_page rows controls headers # ps))
     = Inr (header ''<table>'' [] [])"
  by (simp add: wait_for_element_def get_locator_known example_locators example_fields
        current_def table_page_def CSS_SELECTOR_def)

lemma example_wait_head:
  "wait_for_element ''table_head'' (example_table (table_page rows controls headers # ps))
     = Inr (header ''<thead>'' [] [])"
  by (simp add: wait_for_element_def get_locator_known example_locators example_fields
        current_def table_page_def CSS_SELECTOR_def)

lemma example_headers:
  "find_elements_of ''table_headers'' (example_table (table_page rows controls headers # ps))
     = Inr headers"
  by (simp add: find_elements_of_def p_find_elements_def get_locator_known example_locators
        example_fields current_def table_page_def CSS_SELECTOR_def)

lemma example_rows:
  "find_elements_of ''rows'' (example_table (table_page rows controls headers # ps)) = Inr rows"
  by (simp add: find_elements_of_def p_find_elements_def get_locator_known example_locators
        example_fields current_def table_page_def CSS_SELECTOR_def)

lemma example_controls:
  "find_elements (current (script (example_table (table_page rows controls headers # ps))))
     (CSS_SELECTOR, ''.tbl .pull-right li a'') = Inr controls"
  by (simp add: example_fields current_def table_page_def CSS_SELECTOR_def)

lemma link_readable: "get_attribute (link r t en) ''innerText'' = Some t"
  by (simp add: link_def get_attribute_def)

lemma link_fields:
  "p_is_element_clickable (link r t en) = en" "click_raises (link r t en) = None"
  "repr (link r t en) = r"
  by (simp_all add: p_is_element_clickable_def link_def)

section \<open>The locator registry: an unknown name\<close>

text \<open>
  Claim C7: for a name that is not in the registry, \<open>get_locator\<close> returns the empty
  pair without failing itself, and the failure comes only later, when a caller indexes
  the pair. The code does not behave so. \<open>self.locators.get(name, [])\<close> does give the
  empty list, but the log line of \<open>get_locator\<close> indexes it at once, so \<open>get_locator\<close>
  itself raises \<open>IndexError\<close> and returns nothing: here on a registry holding only
  \<open>username\<close>, asked for \<open>missing\<close>.
\<close>

theorem get_locator_missing_name:
  "dict_get (Locator_init [(''username'', None, ''#user'')]) ''missing'' = []
   \<and> get_locator (Locator_init [(''username'', None, ''#user'')]) ''missing'' = Inl IndexError"
  by (simp add: get_locator_def dict_get_def index_def Locator_init_def update_locaters_def)

section \<open>Column selectors\<close>

lemma init_status_column:
  "AlertTable_init driver container = Inr s \<Longrightarrow>
   locators s ''status_column'' = Some (CSS_SELECTOR, '' [data-test=\"status\"]'')"
  by (auto simp: AlertTable_init_def update_locaters_def new_locator_def by_or_default_def
           split: list.splits)

lemma normalize_examples:
  "normalize ''Status'' = ''status''"
  "normalize ''status'' = ''status''"
  "normalize ''sta tus'' = ''sta_tus''"
  by (simp_all add: str_eval)

text \<open>
  Claim C3, as the code has it: on every table that \<open>AlertTable.__init__\<close> builds,
  \<open>Status\<close> and \<open>status\<close> both normalise to \<open>status\<close> and get the dedicated status
  selector; \<open>sta tus\<close> normalises to \<open>sta_tus\<close>, since a space becomes an underscore, and
  gets the generic cell selector of the table root for the column \<open>sta_tus\<close>.
\<close>

theorem column_selector_status:
  assumes "AlertTable_init driver container = Inr s"
  shows "column_selector s ''Status'' = Inr [CSS_SELECTOR, '' [data-test=\"status\"]'']
       \<and> column_selector s ''status'' = Inr [CSS_SELECTOR, '' [data-test=\"status\"]'']
       \<and> column_selector s ''sta tus'' = Inr [CSS_SELECTOR, value s @ '' td.cell-sta_tus'']"
  using init_status_column [OF assms]
  by (simp add: column_selector_def normalize_examples get_locator_known register_temp_col_def
        update_locaters_def by_or_default_def COLS_def)

theorem column_selector_status_witness:
  "column_selector (example_table []) ''Status'' = Inr [''css selector'', '' [data-test=\"status\"]'']
   \<and> column_selector (example_table []) ''status'' = Inr [''css selector'', '' [data-test=\"status\"]'']
   \<and> column_selector (example_table []) ''sta tus'' = Inr [''css selector'', ''.tbl td.cell-sta_tus'']"
  using column_selector_status [OF example_table_init [of "[]"]]
  by (simp add: example_fields CSS_SELECTOR_def)

text \<open>
  Claim C3 as stated, that \<open>sta tus\<close> gets the same selector as \<open>status\<close>, fails on the
  table of root \<open>.tbl\<close>.
\<close>

theorem column_selector_space_counterexample:
  "column_selector (example_table []) ''sta tus'' \<noteq> column_selector (example_table []) ''status''"
  by (simp add: column_selector_def normalize_examples get_locator_known example_locators
        register_temp_col_def update_locaters_def by_or_default_def example_fields COLS_def)

text \<open>The selector is the one \<open>_column_value\<close> searches the row with.\<close>

lemma p_column_value_selector:
  assumes "fst (p_column_value row column s) = Inr t"
  shows "\<exists>b v el. column_selector s column = Inr [b, v] \<and> find_element row (b, v) = Inr el"
proof -
  have star: "\<exists>b v. l = [b, v] \<and> loc = (b, v)" if "star2 l = Inr loc" for l loc
    using that by (cases l rule: star2.cases) auto
  show ?thesis
    using assms
    by (auto simp: p_column_value_def column_selector_def p_find_element_def Let_def
             split: sum.splits if_splits dest!: star)
qed

section \<open>Entering text\<close>

text \<open>
  Claim C9, as the code has it: for a registered locator whose element is present,
  \<open>enter_text\<close> clears the field and then types, except when the resolved selector is
  exactly the string \<open>password\<close>, whatever the strategy; then, and only then, it types
  without clearing. The test is on the selector string, not on the field it finds.
\<close>

theorem enter_text_clears_unless_password:
  assumes "locators s locator = Some (b, v)"
      and "until_presence (current (script s)) (b, v) = Some el"
  shows "enter_text locator txt s =
           (Inr (), s\<lparr>events := events s @
              (if v = ''password'' then [SendKeys (repr el) txt]
               else [Clear (repr el), SendKeys (repr el) txt])\<rparr>)"
  using assms
  by (simp add: enter_text_def get_locator_known get_element_def)

theorem enter_text_clears_unless_password_witness:
  "events (snd (enter_text ''username'' ''admin'' login_form))
     = [Clear ''<username>'', SendKeys ''<username>'' ''admin'']
   \<and> events (snd (enter_text ''password'' ''secret'' login_form))
     = [SendKeys ''<password>'' ''secret'']"
  using enter_text_clears_unless_password
          [of login_form "''username''" "''id''" "''username''" _ "''admin''"]
        enter_text_clears_unless_password
          [of login_form "''password''" "''id''" "''password''" _ "''secret''"]
  by (simp add: login_form_def login_page_def Locator_init_def update_locaters_def
        by_or_default_def current_def input_box_def)

text \<open>
  Claim C9 as stated, that a field is left uncleared whenever the resolved selector
  denotes a password-type field, fails on the locator \<open>input[type=password]\<close>: the
  element it finds is an input of type \<open>password\<close>, and \<open>enter_text\<close> clears it before
  typing.
\<close>

theorem enter_text_password_field_counterexample:
  "get_attribute password_input ''type'' = Some ''password''
   \<and> get_element ''css selector'' ''input[type=password]'' password_form = Inr password_input
   \<and> events (snd (enter_text ''password_box'' ''secret'' password_form))
       = [Clear ''<input password>'', SendKeys ''<input password>'' ''secret'']"
  by (simp add: enter_text_def get_element_def get_locator_def dict_get_def index_def
        password_form_def password_page_def password_input_def Locator_init_def
        update_locaters_def by_or_default_def CSS_SELECTOR_def current_def get_attribute_def)

section \<open>Reading a label\<close>

text \<open>
  Claim C10: when the text of the element, with the screen-reader spans below it removed
  and the result trimmed, is empty, \<open>get_text\<close> returns the sentence
  \<open>element text not found of locator=\<close> followed by the locator name, and otherwise it
  returns that text. This is for a registered locator whose element is present.
\<close>

theorem get_text_sentinel:
  assumes "locators s locator = Some (b, v)"
      and "until_presence (current (script s)) (b, v) = Some el"
  shows "fst (get_text locator s) =
           Inr (if execute_script el = [] then ''element text not found of locator='' @ locator
                else execute_script el)"
  using assms
  by (simp add: get_text_def get_locator_known get_element_def Let_def lower_empty)

theorem get_text_sentinel_witness:
  "fst (get_text ''name_label'' label_form) = Inr ''Name *''
   \<and> fst (get_text ''icon_label'' label_form)
       = Inr ''element text not found of locator=icon_label''"
  using get_text_sentinel [of label_form "''name_label''" "''css selector''" "''.name label''"]
        get_text_sentinel [of label_form "''icon_label''" "''css selector''" "''.icon label''"]
  by (simp add: label_form_def label_page_def Locator_init_def update_locaters_def
        by_or_default_def CSS_SELECTOR_def current_def execute_script_def screen_reader_span_def
        trim_def js_space_def)

section \<open>Turning the page\<close>

definition labelled_next :: "element \<Rightarrow> bool" where
  "labelled_next el =
     (case get_element_text el of Inl e \<Rightarrow> False | Inr t \<Rightarrow> lower t = ''next'')"

lemma get_element_text_readable:
  "get_attribute el ''innerText'' \<noteq> None \<Longrightarrow> \<exists>t. get_element_text el = Inr t"
  by (auto simp: get_element_text_def)

lemma labelled_next_link:
  "labelled_next (link r t en) = (lower (strip (sub_spaces t)) = ''next'')"
  by (simp add: labelled_next_def link_def get_element_text_def get_attribute_def)

lemma next_page_for_find:
  assumes "\<forall>el \<in> set els. get_attribute el ''innerText'' \<noteq> None"
  shows "next_page_for els s =
           (case find labelled_next els of
              None \<Rightarrow> (None, s)
            | Some el \<Rightarrow>
                (if p_is_element_clickable el \<and> click_raises el = None
                 then (Some (Inr True),
                       s\<lparr>script := tl (script s), events := events s @ [Click (repr el)]\<rparr>)
                 else (Some (Inr False), s)))"
  using assms
proof (induction els)
  case Nil
  then show ?case by simp
next
  case (Cons el els)
  from Cons.prems obtain t where t: "get_element_text el = Inr t"
    using get_element_text_readable [of el] by auto
  show ?case
  proof (cases "lower t = ''next''")
    case True
    then show ?thesis
      using t by (simp add: labelled_next_def click_def split: option.splits)
  next
    case False
    then show ?thesis
      using t Cons by (simp add: labelled_next_def)
  qed
qed

text \<open>
  Claim C2, as the code has it. When the table container is visible and every pagination
  control found has an inner text, \<open>next_page\<close> pauses and then: with no pagination control
  at all it returns false; with controls of which none is labelled next it raises
  \<open>ValueError\<close>; otherwise it looks at the first control labelled next only, and returns
  true, having clicked it, exactly when that control is displayed and enabled and the
  click goes through, and false without a click when it is not.
\<close>

theorem next_page_outcome:
  assumes "wait_for_element ''table_container'' s = Inr w"
      and "locators s ''switch_to_page'' = Some (b, v)"
      and "find_elements (current (script s)) (b, v) = Inr els"
      and "\<forall>el \<in> set els. get_attribute el ''innerText'' \<noteq> None"
  shows "next_page s =
           (if els = [] then (Inr False, sleep 10000 s)
            else case find labelled_next els of
                   None \<Rightarrow>
                     (Inl (ValueError (''page: '' @ repr (last els) @ '' is not found.'')),
                      sleep 10000 s)
                 | Some el \<Rightarrow>
                     (if p_is_element_clickable el \<and> click_raises el = None
                      then (Inr True,
                            s\<lparr>script := tl (script s),
                              events := events s @ [Sleep 10000, Click (repr el)]\<rparr>)
                      else (Inr False, sleep 10000 s)))"
  using assms
  by (simp add: next_page_def Let_def get_locator_known sleep_def next_page_for_find
           split: option.splits)

theorem next_page_outcome_witness:
  "next_page (example_table [first_page, last_page]) =
     (Inr True, (example_table [last_page])\<lparr>events := [Sleep 10000, Click ''<a next>'']\<rparr>)
   \<and> next_page (example_table [last_page]) =
     (Inr False, (example_table [last_page])\<lparr>events := [Sleep 10000]\<rparr>)"
proof -
  have r1: "\<forall>el \<in> set first_controls. get_attribute el ''innerText'' \<noteq> None"
    by (simp add: first_controls_def link_readable)
  have r2: "\<forall>el \<in> set last_controls. get_attribute el ''innerText'' \<noteq> None"
    by (simp add: last_controls_def link_readable)
  have f1: "find labelled_next first_controls = Some (link ''<a next>'' '' Next '' True)"
    by (simp add: first_controls_def labelled_next_link str_eval)
  have f2: "find labelled_next last_controls = Some (link ''<a next>'' ''Next'' False)"
    by (simp add: last_controls_def labelled_next_link str_eval)
  have n1: "first_controls \<noteq> []" and n2: "last_controls \<noteq> []"
    by (simp_all add: first_controls_def last_controls_def)
  show ?thesis
    using next_page_outcome [OF example_wait example_locators(2) example_controls r1,
            of "[table_row ''<tr 1>'' ''cpu'', table_row ''<tr 2>'' ''disk'']" "[]" "[last_page]"]
          next_page_outcome [OF example_wait example_locators(2) example_controls r2,
            of "[table_row ''<tr 3>'' ''memory'']" "[]" "[]"]
    by (simp add: first_page_def [symmetric] last_page_def [symmetric] f1 f2 link_fields n1 n2
          sleep_def example_table_def)
qed

text \<open>
  Claim C2 as stated, that \<open>next_page\<close> returns false and raises nothing whenever no
  control labelled next can be clicked, fails on a pagination bar that holds a disabled
  \<open>Prev\<close> and the page number \<open>1\<close>: there is no control labelled next, and the call raises.
\<close>

theorem next_page_no_next_control_counterexample:
  "fst (next_page (example_table [numbered_page])) = Inl (ValueError ''page: <a 1> is not found.'')
   \<and> fst (next_page (example_table [numbered_page])) \<noteq> Inr False"
proof -
  have w: "wait_for_element ''table_container'' (example_table [numbered_page])
             = Inr (header ''<table>'' [] [])"
    unfolding numbered_page_def by (rule example_wait)
  have c: "find_elements (current [numbered_page]) (CSS_SELECTOR, ''.tbl .pull-right li a'')
             = Inr [link ''<a prev>'' ''Prev'' False, link ''<a 1>'' ''1'' True]"
    by (simp add: current_def numbered_page_def table_page_def CSS_SELECTOR_def)
  show ?thesis
    by (simp add: next_page_def w c example_locators get_locator_known sleep_def example_fields
          link_def get_element_text_def get_attribute_def str_eval)
qed

section \<open>Sorting\<close>

definition header_matches :: "element \<Rightarrow> string \<Rightarrow> bool" where
  "header_matches th column = (text_of th \<noteq> [] \<and> lower (text_of th) = lower column)"

lemma sort_table_for_no_match:
  "\<forall>th \<in> set ths. \<not> header_matches th column \<Longrightarrow> sort_table_for ths column order s = (None, s)"
  by (induction ths) (auto simp: header_matches_def)

lemma sort_table_no_header:
  assumes "wait_for_element ''table_head'' s = Inr w"
      and "find_elements_of ''table_headers'' s = Inr ths"
      and "\<forall>th \<in> set ths. \<not> header_matches th column"
  shows "sort_table column order s = (Inl (ValueError (''Failed to sort the '' @ column)), s)"
  using assms by (simp add: sort_table_def sort_table_for_no_match)

text \<open>
  On a matching header that is neither ascending nor descending, a request for \<open>asc\<close>
  pauses, clicks once, pauses, and then goes on with the headers that follow: the
  \<open>return True\<close> of that branch stands under \<open>if order == "desc"\<close>.
\<close>

lemma sort_table_for_unsorted_asc:
  assumes "header_matches th column"
      and "get_attribute th ''data-test-sort-dir'' \<noteq> Some ''asc''"
      and "get_attribute th ''data-test-sort-dir'' \<noteq> Some ''desc''"
      and "click_raises th = None"
  shows "sort_table_for (th # ths) column ''asc'' s =
           sort_table_for ths column ''asc''
             (s\<lparr>script := tl (script s),
                events := events s @ [Sleep 2000, Click (repr th), Sleep 2000]\<rparr>)"
  using assms by (simp add: header_matches_def sleep_def click_def)

lemma sort_table_for_unsorted_desc:
  assumes "header_matches th column"
      and "get_attribute th ''data-test-sort-dir'' \<noteq> Some ''asc''"
      and "get_attribute th ''data-test-sort-dir'' \<noteq> Some ''desc''"
      and "click_raises th = None"
  shows "sort_table_for (th # ths) column ''desc'' s =
           (Some (Inr True),
            s\<lparr>script := tl (tl (script s)),
              events := events s @ [Sleep 2000, Click (repr th), Sleep 2000, Click (repr th)]\<rparr>)"
  using assms by (simp add: header_matches_def sleep_def click_def)

text \<open>
  Claim C1: on a matching header whose sort direction is neither the requested one nor
  its opposite, \<open>sort_table\<close> clicks once, pauses, clicks again only for \<open>desc\<close>, and
  returns true for \<open>asc\<close> as for \<open>desc\<close>. For \<open>asc\<close> the code does not return true: on the
  table whose headers \<open>Name\<close> and \<open>Owner\<close> are both unsorted, \<open>sort_table("name", "asc")\<close>
  clicks \<open>Name\<close> once between two pauses and then raises \<open>ValueError\<close>, the error kept for
  a column that is not there.
\<close>

theorem sort_table_unsorted_asc_raises:
  "sort_table ''name'' ''asc'' unsorted_table =
     (Inl (ValueError ''Failed to sort the name''),
      unsorted_table\<lparr>script := [], events := [Sleep 2000, Click ''<th name>'', Sleep 2000]\<rparr>)"
  by (simp add: sort_table_def unsorted_table_def example_wait_head example_headers
        header_def str_eval get_attribute_def sleep_def click_def example_fields)

text \<open>The same table sorted \<open>desc\<close>: two clicks, and true.\<close>

lemma sort_table_unsorted_desc:
  "sort_table ''name'' ''desc'' unsorted_table =
     (Inr True,
      unsorted_table\<lparr>script := [],
        events := [Sleep 2000, Click ''<th name>'', Sleep 2000, Click ''<th name>'']\<rparr>)"
  by (simp add: sort_table_def unsorted_table_def example_wait_head example_headers
        header_def str_eval get_attribute_def sleep_def click_def example_fields)

section \<open>Listing the rows and streaming them\<close>










section \<open>Deleting a row\<close>

text \<open>
  Whatever the table and the action, \<open>delete_row\<close> returns false: every branch taken
  once the popup is up ends in an \<open>AttributeError\<close>, which the handler turns into false.
\<close>

lemma delete_row_never_true: "fst (delete_row input_name action s) = False"
  by (simp add: delete_row_def delete_row_try_def popup_action_def
           split: sum.splits prod.splits)

lemma get_row_cpu:
  "fst (get_row ''cpu'' ''name'' False delete_table) = Inr (table_row ''<tr 1>'' ''cpu'')
   \<and> script (snd (get_row ''cpu'' ''name'' False delete_table)) = script delete_table
   \<and> events (snd (get_row ''cpu'' ''name'' False delete_table)) = []
   \<and> locators (snd (get_row ''cpu'' ''name'' False delete_table)) ''delete_btn''
       = Some (CSS_SELECTOR, ''a.delete'')
   \<and> locators (snd (get_row ''cpu'' ''name'' False delete_table)) ''popup''
       = Some (CSS_SELECTOR, ''div.deletePrompt'')"
  by (simp add: get_row_def get_row_for.simps delete_table_def example_wait example_rows
        p_column_value_def register_temp_col_def p_find_element_def find_element_def
        get_locator_def dict_get_def index_def example_locators example_fields
        update_locaters_def by_or_default_def COLS_def table_row_def link_def
        get_element_text_def get_attribute_def str_eval Let_def)

text \<open>
  Claim C8: \<open>delete_row\<close> returns true on success, after clicking the delete control of
  the row, waiting for the popup, acting on it as \<open>action\<close> says and waiting for it to go
  away, and returns false instead of raising on any exception. The code has the second
  half only. On the table with the row \<open>cpu\<close>, \<open>delete_row("cpu", "delete")\<close> finds the
  row, clicks its delete control, sees the popup come up, and then returns false: nothing
  went wrong in the browser, but \<open>self.delete_btn\<close> is not an attribute of the table. The
  popup is left open.
\<close>

theorem delete_row_confirm_returns_false:
  "fst (delete_row ''cpu'' (Some ''delete'') delete_table) = False
   \<and> events (snd (delete_row ''cpu'' (Some ''delete'') delete_table)) = [Click ''<tr 1>/delete'']
   \<and> wait_for_element ''popup'' (snd (delete_row ''cpu'' (Some ''delete'') delete_table))
       = Inr (header ''<div popup>'' [] [])"
proof -
  obtain s1 where
    g: "get_row ''cpu'' ''name'' False delete_table = (Inr (table_row ''<tr 1>'' ''cpu''), s1)"
    and s1: "script s1 = script delete_table" "events s1 = []"
      "locators s1 ''delete_btn'' = Some (CSS_SELECTOR, ''a.delete'')"
      "locators s1 ''popup'' = Some (CSS_SELECTOR, ''div.deletePrompt'')"
    using get_row_cpu by (cases "get_row ''cpu'' ''name'' False delete_table") auto
  have w: "wait_for_element ''table_container'' delete_table = Inr (header ''<table>'' [] [])"
    unfolding delete_table_def by (rule example_wait)
  have sd: "script delete_table = [table_page [table_row ''<tr 1>'' ''cpu''] [] [], popup_page]"
    by (simp add: delete_table_def example_fields)
  have d: "p_find_element (table_row ''<tr 1>'' ''cpu'') ''delete_btn'' s1
             = Inr (link ''<tr 1>/delete'' ''Delete'' True)"
    using s1 by (simp add: p_find_element_def get_locator_known find_element_def table_row_def)
  define s2 where
    "s2 = s1\<lparr>script := tl (script s1), events := events s1 @ [Click ''<tr 1>/delete'']\<rparr>"
  have c: "click (link ''<tr 1>/delete'' ''Delete'' True) s1 = (Inr (), s2)"
    by (simp add: click_def link_def s2_def)
  have p: "wait_for_element ''popup'' s2 = Inr (header ''<div popup>'' [] [])"
    using s1 by (simp add: wait_for_element_def get_locator_known s2_def sd current_def
                   popup_page_def CSS_SELECTOR_def)
  have "delete_row ''cpu'' (Some ''delete'') delete_table = (False, s2)"
    by (simp add: delete_row_def delete_row_try_def w g d c p popup_action_def)
  then show ?thesis
    using p s1 by (simp add: s2_def)
qed

end
